theory Spec2Isabelle
  imports Main "HOL-Library.Word" "HOL-Library.Char_ord" "HOL-Library.Monad_Syntax"
begin

section \<open>Outcomes of Go code\<close>

text \<open>
  A Go string and a Go byte slice are sequences of bytes: \<^typ>\<open>string\<close>, a list of
  \<^typ>\<open>char\<close> (one \<^typ>\<open>char\<close> is one byte, ordered by its code).

  A Go function either returns, or panics, or never returns. A function that returns
  \<open>(x, error)\<close> is modelled as returning a pair of \<open>x\<close> and an \<open>error option\<close>
  (\<open>None\<close> is Go's \<open>nil\<close>); a panic is the value \<open>Panics\<close>; where a loop of the source
  may run forever the function lives in the option monad and not returning is \<open>None\<close>.
\<close>

datatype error =
    Stop
  | UnexpectedChar char "32 word" "32 word"
  | ExpectedNewLine "32 word" "32 word"
  | KeyMustBeUnderSection
  | UnknownSection string
  | InvalidEscapeSequence
  | ParsingFailed error
  | ValueCannotBeSet
  | CannotDecodeType string
  | StrconvError string string
  | FloatSyntax string
  | FieldInvalidValue
  | InvalidTypeForEncode string
  | InvalidTypeForEncodeDecode string
  | CannotUseType string
  | CannotUseAsMapKey string
  | MapKeyMustBeString
  | FieldTypeMustBe string string
  | UnexpectedCommaInTag
  | UnknownFlag string string string
  | DuplicateFlag string string string
  | Joined "error list"
  | WriteFailed error

datatype 'a outcome = Returns 'a | Panics string

section \<open>Character classes (decode.go)\<close>

definition isNameChar :: "char \<Rightarrow> bool" where
  "isNameChar c \<longleftrightarrow>
     c \<ge> CHR ''a'' \<and> c \<le> CHR ''z'' \<or> c \<ge> CHR ''A'' \<and> c \<le> CHR ''Z'' \<or> c = CHR ''_''"

definition isDigit :: "char \<Rightarrow> bool" where
  "isDigit c \<longleftrightarrow> c \<ge> CHR ''0'' \<and> c \<le> CHR ''9''"

definition isHexDigit :: "char \<Rightarrow> bool" where
  "isHexDigit c \<longleftrightarrow>
     isDigit c \<or> c \<ge> CHR ''a'' \<and> c \<le> CHR ''f'' \<or> c \<ge> CHR ''A'' \<and> c \<le> CHR ''F''"

definition isNameCharOrDigit :: "char \<Rightarrow> bool" where
  "isNameCharOrDigit c \<longleftrightarrow> isNameChar c \<or> isDigit c"

definition isNewlineChar :: "char \<Rightarrow> bool" where
  "isNewlineChar c \<longleftrightarrow> c = CHR 0x0A \<or> c = CHR 0x0D"

section \<open>The scanner\<close>

record scanner =
  buf :: "char list"
  bufPos :: nat
  lineNum :: "32 word"
  charNum :: "32 word"
  prevLineCharNum :: "32 word"

definition init :: "char list \<Rightarrow> scanner" where
  "init buffer = \<lparr>buf = buffer, bufPos = 0, lineNum = 1, charNum = 1, prevLineCharNum = 0\<rparr>"

definition lookAhead :: "scanner \<Rightarrow> nat \<Rightarrow> char" where
  "lookAhead scan offset =
     (if bufPos scan + offset < length (buf scan) then buf scan ! (bufPos scan + offset)
      else CHR 0x00)"

definition peek :: "scanner \<Rightarrow> char" where
  "peek scan = lookAhead scan 0"

text \<open>\<open>handleNewline\<close> steps over \<open>\r\<close>, then over \<open>\n\<close>, and starts a new line when it
  stepped over either. It returns whether it did, and the scanner.\<close>

definition handleNewline :: "scanner \<Rightarrow> bool \<times> scanner" where
  "handleNewline base =
     (let (w1, b1) = (if peek base = CHR 0x0D then (True, base\<lparr>bufPos := bufPos base + 1\<rparr>)
                      else (False, base));
          (w2, b2) = (if peek b1 = CHR 0x0A then (True, b1\<lparr>bufPos := bufPos b1 + 1\<rparr>)
                      else (w1, b1))
      in if w2 then (True, b2\<lparr>prevLineCharNum := charNum b2, charNum := 1,
                                lineNum := lineNum b2 + 1\<rparr>)
         else (False, b2))"

definition advance :: "scanner \<Rightarrow> char \<times> scanner" where
  "advance scan =
     (let previous = peek scan
      in if previous = CHR 0x00 then (previous, scan)
         else if previous = CHR 0x0A \<or> previous = CHR 0x0D then (previous, snd (handleNewline scan))
         else (previous, scan\<lparr>bufPos := bufPos scan + 1, charNum := charNum scan + 1\<rparr>))"

definition consume :: "char \<Rightarrow> scanner \<Rightarrow> bool \<times> scanner" where
  "consume c base = (if peek base = c then (True, snd (advance base)) else (False, base))"

text \<open>\<open>take\<close> calls the producer \<open>f\<close> while the cursor is inside the buffer, appends what
  it produced, and stops at the producer's first error; the error \<open>stop\<close> becomes \<open>nil\<close>.
  The producer moves the cursor itself, so the loop has no bound of its own.\<close>

type_synonym producer = "scanner \<Rightarrow> ((char list \<times> error option) \<times> scanner) outcome"

partial_function (option) takeLoop ::
  "producer \<Rightarrow> string \<Rightarrow> scanner \<Rightarrow> ((string \<times> error option) \<times> scanner) outcome option"
where
  "takeLoop f result base =
     (if bufPos base < length (buf base) then
        (case f base of
           Panics p \<Rightarrow> Some (Panics p)
         | Returns ((b, err), base') \<Rightarrow>
             (case err of
                Some e \<Rightarrow>
                  Some (Returns ((result @ b, if e = Stop then None else Some e), base'))
              | None \<Rightarrow> takeLoop f (result @ b) base'))
      else Some (Returns ((result, None), base)))"

definition take_scan :: "producer \<Rightarrow> scanner \<Rightarrow> ((string \<times> error option) \<times> scanner) outcome option"
where
  "take_scan f base = takeLoop f [] base"

definition whileProducer :: "(char \<Rightarrow> bool) \<Rightarrow> producer" where
  "whileProducer f base =
     (if f (peek base) then (let (c, base') = advance base in Returns (([c], None), base'))
      else Returns (([], Some Stop), base))"

definition untilProducer :: "(char \<Rightarrow> bool) \<Rightarrow> producer" where
  "untilProducer f base =
     (if \<not> f (peek base) then (let (c, base') = advance base in Returns (([c], None), base'))
      else Returns (([], Some Stop), base))"

text \<open>\<open>takeWhile\<close> and \<open>takeUntil\<close> drop the error of \<open>take\<close>.\<close>

definition dropErr ::
  "((string \<times> error option) \<times> scanner) outcome option \<Rightarrow> (string \<times> scanner) outcome option"
where
  "dropErr r = (case r of None \<Rightarrow> None
                | Some (Panics p) \<Rightarrow> Some (Panics p)
                | Some (Returns ((s, _), base)) \<Rightarrow> Some (Returns (s, base)))"

definition takeWhile_scan :: "(char \<Rightarrow> bool) \<Rightarrow> scanner \<Rightarrow> (string \<times> scanner) outcome option"
where
  "takeWhile_scan f base = dropErr (take_scan (whileProducer f) base)"

definition takeUntil :: "(char \<Rightarrow> bool) \<Rightarrow> scanner \<Rightarrow> (string \<times> scanner) outcome option"
where
  "takeUntil f base = dropErr (take_scan (untilProducer f) base)"

section \<open>Values seen through reflection\<close>

text \<open>
  The package reads and writes the caller's value through \<open>reflect\<close>. A
  \<open>reflect.Value\<close> is modelled by the value it refers to, tagged with its kind, and by
  whether it can be set. A slice keeps the zero value of its element type (what
  \<open>Grow\<close> and \<open>SetLen\<close> expose), and is \<open>nil\<close> or has a capacity and elements.
  A struct keeps the name of its type and its members with their declarations. A map
  keeps the kind of its key and its entries in the order \<open>MapRange\<close> happens to visit
  them. Types that implement \<open>Marshaler\<close>, \<open>SectionMarshaler\<close> or
  \<open>encoding.TextMarshaler\<close> are outside the model; floating-point numbers are an
  abstract type \<open>'f\<close> whose formatting and parsing are taken from the record
  \<open>runtime\<close>, with the growth policy of \<open>Grow\<close>.
\<close>

datatype kind =
    KInvalid | KBool | KInt | KInt8 | KInt16 | KInt32 | KInt64
  | KUint | KUint8 | KUint16 | KUint32 | KUint64 | KUintptr
  | KFloat32 | KFloat64 | KComplex64 | KComplex128
  | KArray | KChan | KFunc | KInterface | KMap | KPointer | KSlice | KString | KStruct | KUnsafePointer

record StructField =
  sfName :: string
  sfExported :: bool
  sfTag :: string

datatype 'f val =
    VInvalid
  | VBool bool
  | VInt kind int
  | VUint kind nat
  | VFloat kind 'f
  | VString string
  | VSlice "'f val" "(nat \<times> 'f val list) option"
  | VArray "'f val list"
  | VStruct string "(StructField \<times> 'f val) list"
  | VMap kind "(string \<times> 'f val) list option"
  | VPointer "'f val option"
  | VInterface "'f val option"
  | VOther kind bool

fun Kind :: "'f val \<Rightarrow> kind" where
  "Kind VInvalid = KInvalid"
| "Kind (VBool _) = KBool"
| "Kind (VInt k _) = k"
| "Kind (VUint k _) = k"
| "Kind (VFloat k _) = k"
| "Kind (VString _) = KString"
| "Kind (VSlice _ _) = KSlice"
| "Kind (VArray _) = KArray"
| "Kind (VStruct _ _) = KStruct"
| "Kind (VMap _ _) = KMap"
| "Kind (VPointer _) = KPointer"
| "Kind (VInterface _) = KInterface"
| "Kind (VOther k _) = k"

text \<open>\<open>Type().String()\<close>, which the error messages print: the name of a struct type;
  for the other types the model has no name and prints the kind.\<close>

definition kindName :: "kind \<Rightarrow> string" where
  "kindName k =
     (case k of
        KInvalid \<Rightarrow> ''invalid'' | KBool \<Rightarrow> ''bool'' | KInt \<Rightarrow> ''int'' | KInt8 \<Rightarrow> ''int8''
      | KInt16 \<Rightarrow> ''int16'' | KInt32 \<Rightarrow> ''int32'' | KInt64 \<Rightarrow> ''int64''
      | KUint \<Rightarrow> ''uint'' | KUint8 \<Rightarrow> ''uint8'' | KUint16 \<Rightarrow> ''uint16''
      | KUint32 \<Rightarrow> ''uint32'' | KUint64 \<Rightarrow> ''uint64'' | KUintptr \<Rightarrow> ''uintptr''
      | KFloat32 \<Rightarrow> ''float32'' | KFloat64 \<Rightarrow> ''float64''
      | KComplex64 \<Rightarrow> ''complex64'' | KComplex128 \<Rightarrow> ''complex128''
      | KArray \<Rightarrow> ''array'' | KChan \<Rightarrow> ''chan'' | KFunc \<Rightarrow> ''func''
      | KInterface \<Rightarrow> ''interface'' | KMap \<Rightarrow> ''map'' | KPointer \<Rightarrow> ''ptr''
      | KSlice \<Rightarrow> ''slice'' | KString \<Rightarrow> ''string'' | KStruct \<Rightarrow> ''struct''
      | KUnsafePointer \<Rightarrow> ''unsafe.Pointer'')"

definition typeString :: "'f val \<Rightarrow> string" where
  "typeString v = (case v of VStruct tname _ \<Rightarrow> tname | _ \<Rightarrow> kindName (Kind v))"

record 'f runtime =
  FormatFloat :: "'f \<Rightarrow> string"
  ParseFloat :: "string \<Rightarrow> 'f option"
  IsNaN :: "'f \<Rightarrow> bool"
  IsInf :: "'f \<Rightarrow> int \<Rightarrow> bool"
  SetFloat :: "kind \<Rightarrow> 'f \<Rightarrow> 'f"
  FloatIsZero :: "'f \<Rightarrow> bool"
  growCap :: "nat \<Rightarrow> nat \<Rightarrow> nat"

section \<open>Library functions the package calls\<close>

subsection \<open>strings\<close>

text \<open>\<open>strings.TrimSpace\<close> removes leading and trailing Unicode white space. White
  space is listed by its UTF-8 encodings; a byte that starts no such encoding stops the
  trimming, as an invalid or non-space rune does.\<close>

definition spaceEncodings :: "char list list" where
  "spaceEncodings =
     [[CHR 0x09], [CHR 0x0A], [CHR 0x0B], [CHR 0x0C], [CHR 0x0D], [CHR 0x20],
      [CHR 0xC2, CHR 0x85], [CHR 0xC2, CHR 0xA0], [CHR 0xE1, CHR 0x9A, CHR 0x80],
      [CHR 0xE2, CHR 0x80, CHR 0x80], [CHR 0xE2, CHR 0x80, CHR 0x81],
      [CHR 0xE2, CHR 0x80, CHR 0x82], [CHR 0xE2, CHR 0x80, CHR 0x83],
      [CHR 0xE2, CHR 0x80, CHR 0x84], [CHR 0xE2, CHR 0x80, CHR 0x85],
      [CHR 0xE2, CHR 0x80, CHR 0x86], [CHR 0xE2, CHR 0x80, CHR 0x87],
      [CHR 0xE2, CHR 0x80, CHR 0x88], [CHR 0xE2, CHR 0x80, CHR 0x89],
      [CHR 0xE2, CHR 0x80, CHR 0x8A], [CHR 0xE2, CHR 0x80, CHR 0xA8],
      [CHR 0xE2, CHR 0x80, CHR 0xA9], [CHR 0xE2, CHR 0x80, CHR 0xAF],
      [CHR 0xE2, CHR 0x81, CHR 0x9F], [CHR 0xE3, CHR 0x80, CHR 0x80]]"

fun stripFirst :: "char list list \<Rightarrow> char list \<Rightarrow> char list option" where
  "stripFirst [] s = None"
| "stripFirst (e # es) s =
     (if take (length e) s = e then Some (drop (length e) s) else stripFirst es s)"

function TrimLeftSpace :: "char list list \<Rightarrow> string \<Rightarrow> string" where
  "TrimLeftSpace es s =
     (case stripFirst es s of
        None \<Rightarrow> s
      | Some s' \<Rightarrow> if length s' < length s then TrimLeftSpace es s' else s)"
  by pat_completeness auto
termination
  by (relation "measure (\<lambda>(es, s). length s)") auto

definition TrimSpace :: "string \<Rightarrow> string" where
  "TrimSpace s =
     rev (TrimLeftSpace (map rev spaceEncodings) (rev (TrimLeftSpace spaceEncodings s)))"

text \<open>\<open>strings.Split(s, sep)\<close> for a one-byte separator: the pieces between the
  separators, at least one piece.\<close>

fun Split :: "string \<Rightarrow> char \<Rightarrow> string list" where
  "Split [] sep = [[]]"
| "Split (c # cs) sep =
     (if c = sep then [] # Split cs sep
      else (case Split cs sep of p # ps \<Rightarrow> (c # p) # ps | [] \<Rightarrow> [[c]]))"

text \<open>\<open>strings.Cut(s, sep)\<close> for a one-byte separator: the text before the first
  separator, the text after it, and whether there is one.\<close>

definition Cut :: "string \<Rightarrow> char \<Rightarrow> string \<times> string \<times> bool" where
  "Cut s sep =
     (if sep \<in> set s then (takeWhile (\<lambda>c. c \<noteq> sep) s, tl (dropWhile (\<lambda>c. c \<noteq> sep) s), True)
      else (s, [], False))"

subsection \<open>strconv\<close>

definition ParseBool :: "string \<Rightarrow> error + bool" where
  "ParseBool str =
     (if str \<in> set [''1'', ''t'', ''T'', ''TRUE'', ''true'', ''True''] then Inr True
      else if str \<in> set [''0'', ''f'', ''F'', ''FALSE'', ''false'', ''False''] then Inr False
      else Inl (StrconvError ''ParseBool'' str))"

definition digitVal :: "char \<Rightarrow> nat" where
  "digitVal c = of_char c - of_char CHR ''0''"

definition digitsVal :: "string \<Rightarrow> nat" where
  "digitsVal s = foldl (\<lambda>n c. 10 * n + digitVal c) 0 s"

text \<open>\<open>strconv.ParseUint(s, 10, 64)\<close>: decimal digits only, below \<open>2^64\<close>.\<close>

definition ParseUint :: "string \<Rightarrow> error + nat" where
  "ParseUint s =
     (if s = [] \<or> \<not> list_all isDigit s then Inl (StrconvError ''ParseUint'' s)
      else if digitsVal s \<ge> 2 ^ 64 then Inl (StrconvError ''ParseUint'' s)
      else Inr (digitsVal s))"

text \<open>\<open>strconv.ParseInt(s, 10, 64)\<close>: an optional sign, decimal digits, in the range
  of \<open>int64\<close>.\<close>

definition ParseInt :: "string \<Rightarrow> error + int" where
  "ParseInt s =
     (if s = [] then Inl (StrconvError ''ParseInt'' s)
      else
        let neg = (hd s = CHR ''-'');
            s1 = (if hd s = CHR ''+'' \<or> hd s = CHR ''-'' then tl s else s)
        in if s1 = [] \<or> \<not> list_all isDigit s1 then Inl (StrconvError ''ParseInt'' s)
           else
             let un = digitsVal s1
             in if \<not> neg \<and> un \<ge> 2 ^ 63 then Inl (StrconvError ''ParseInt'' s)
                else if neg \<and> un > 2 ^ 63 then Inl (StrconvError ''ParseInt'' s)
                else Inr (if neg then - int un else int un))"

function FormatUint :: "nat \<Rightarrow> string" where
  "FormatUint n =
     (if n < 10 then [''0123456789'' ! n]
      else FormatUint (n div 10) @ [''0123456789'' ! (n mod 10)])"
  by pat_completeness auto
termination
  by (relation "measure id") auto

definition FormatInt :: "int \<Rightarrow> string" where
  "FormatInt i = (if i < 0 then CHR ''-'' # FormatUint (nat (- i)) else FormatUint (nat i))"

definition FormatBool :: "bool \<Rightarrow> string" where
  "FormatBool b = (if b then ''true'' else ''false'')"

subsection \<open>reflect\<close>

text \<open>\<open>SetInt\<close> and \<open>SetUint\<close> store the 64-bit number in the width of the kind
  (\<open>int\<close> and \<open>uint\<close> have 64 bits).\<close>

definition bitSize :: "kind \<Rightarrow> nat" where
  "bitSize k =
     (if k = KInt8 \<or> k = KUint8 then 8 else if k = KInt16 \<or> k = KUint16 then 16
      else if k = KInt32 \<or> k = KUint32 then 32 else 64)"

definition SetInt :: "kind \<Rightarrow> int \<Rightarrow> int" where
  "SetInt k x = signed_take_bit (bitSize k - 1) x"

definition SetUint :: "kind \<Rightarrow> nat \<Rightarrow> nat" where
  "SetUint k x = x mod 2 ^ bitSize k"

section \<open>Sequencing\<close>

text \<open>\<open>andThen m k\<close> runs \<open>k\<close> on what \<open>m\<close> returned; a panic of \<open>m\<close>, or \<open>m\<close> not
  returning, is the result.\<close>

definition andThen :: "'a outcome option \<Rightarrow> ('a \<Rightarrow> 'b outcome option) \<Rightarrow> 'b outcome option" where
  "andThen m k = (case m of None \<Rightarrow> None
                  | Some (Panics p) \<Rightarrow> Some (Panics p)
                  | Some (Returns a) \<Rightarrow> k a)"

abbreviation ret :: "'a \<Rightarrow> 'a outcome option" where
  "ret x \<equiv> Some (Returns x)"

lemma andThen_mono [partial_function_mono]:
  assumes "mono_option B" and "\<And>y. mono_option (\<lambda>f. C y f)"
  shows "mono_option (\<lambda>f. andThen (B f) (\<lambda>y. C y f))"
proof -
  have eq: "\<And>f. andThen (B f) (\<lambda>y. C y f) =
      Option.bind (B f) (\<lambda>r. case r of Panics p \<Rightarrow> Some (Panics p) | Returns a \<Rightarrow> C a f)"
    by (simp add: andThen_def split: option.splits outcome.splits)
  have "mono_option (\<lambda>f. Option.bind (B f)
      (\<lambda>r. case r of Panics p \<Rightarrow> Some (Panics p) | Returns a \<Rightarrow> C a f))"
  proof (rule bind_mono [OF assms(1)])
    fix r
    show "mono_option (\<lambda>f. case r of Panics p \<Rightarrow> Some (Panics p) | Returns a \<Rightarrow> C a f)"
      by (cases r) (simp_all add: assms(2) option.const_mono)
  qed
  then show ?thesis by (simp only: eq)
qed

lemma andThen_cong_weak: "m = m' \<Longrightarrow> andThen m k = andThen m' k"
  by simp

lemma andThen_simps:
  "andThen None k = None"
  "andThen (Some (Panics p)) k = Some (Panics p)"
  "andThen (Some (Returns a)) k = k a"
  by (simp_all add: andThen_def)

section \<open>The section tree (decode.go)\<close>

text \<open>A \<open>Field\<close> holds a \<open>reflect.Value\<close>: a reference into the caller's value. The
  model keeps the referenced value in the field (\<open>fValue\<close>) with whether it can be set
  (\<open>fCanSet\<close>); what the decoder assigns through the reference is written to the field,
  and the tree a decode returns stands for the caller's value after the call.\<close>

record 'f Field =
  fName :: string
  fValue :: "'f val"
  fCanSet :: bool
  fOmitEmpty :: bool
  fCommented :: bool

record 'f Section =
  sName :: string
  sFields :: "'f Field list"
  sOmitEmpty :: bool

text \<open>\<open>(*Section).Field\<close>: the first field of that name.\<close>

definition Section_Field :: "'f Section \<Rightarrow> string \<Rightarrow> 'f Field option" where
  "Section_Field s name = find (\<lambda>field. fName field = name) (sFields s)"

fun updateFirst :: "('a \<Rightarrow> bool) \<Rightarrow> ('a \<Rightarrow> 'a) \<Rightarrow> 'a list \<Rightarrow> 'a list" where
  "updateFirst P f [] = []"
| "updateFirst P f (x # xs) = (if P x then f x # xs else x # updateFirst P f xs)"

text \<open>Assigning through the handle of the first field named \<open>name\<close> of section
  \<open>idx\<close>.\<close>

definition assignField :: "'f Section list \<Rightarrow> nat \<Rightarrow> string \<Rightarrow> 'f val \<Rightarrow> 'f Section list" where
  "assignField sections idx name v =
     sections[idx := (sections ! idx)\<lparr>sFields :=
        updateFirst (\<lambda>field. fName field = name) (\<lambda>field. field\<lparr>fValue := v\<rparr>)
          (sFields (sections ! idx))\<rparr>]"

fun IndexFunc :: "'a list \<Rightarrow> ('a \<Rightarrow> bool) \<Rightarrow> nat option" where
  "IndexFunc [] f = None"
| "IndexFunc (x # xs) f =
     (if f x then Some 0 else (case IndexFunc xs f of None \<Rightarrow> None | Some i \<Rightarrow> Some (Suc i)))"

text \<open>\<open>findSection\<close> returns a pointer to the first section of that name: its index,
  or \<open>None\<close> for \<open>nil\<close>.\<close>

definition findSection :: "'f Section list \<Rightarrow> string \<Rightarrow> nat option" where
  "findSection sections name = IndexFunc sections (\<lambda>section. sName section = name)"

section \<open>Assigning a parsed text (decode.go, decode)\<close>

fun maxList :: "nat list \<Rightarrow> nat" where
  "maxList [] = 0"
| "maxList (x # xs) = max x (maxList xs)"

fun depth :: "'f val \<Rightarrow> nat" where
  "depth (VSlice z d) =
     Suc (max (depth z) (case d of None \<Rightarrow> 0 | Some (c, xs) \<Rightarrow> maxList (map depth xs)))"
| "depth (VArray xs) = Suc (maxList (map depth xs))"
| "depth _ = 0"

text \<open>\<open>decode str v\<close> returns the error and the value \<open>v\<close> refers to after the call.
  For a slice with too little capacity, \<open>Grow\<close> and \<open>SetLen\<close> leave the old elements
  followed by zero elements; \<open>Grow\<close> panics on an array, and \<open>Index\<close> panics past the
  length. \<open>decodeElems\<close> is the loop over the pieces.\<close>

function decode :: "'f runtime \<Rightarrow> string \<Rightarrow> 'f val \<Rightarrow> bool \<Rightarrow> (error option \<times> 'f val) outcome"
  and decodeElems :: "'f runtime \<Rightarrow> string list \<Rightarrow> 'f val list \<Rightarrow> (error option \<times> 'f val list) outcome"
where
  "decode rt str v canSet =
     (if v = VInvalid \<or> str = [] then Returns (None, v)
      else if \<not> canSet then Returns (Some ValueCannotBeSet, v)
      else (case v of
          VBool _ \<Rightarrow>
            (case ParseBool str of
               Inl err \<Rightarrow> Returns (Some (ParsingFailed err), v)
             | Inr x \<Rightarrow> Returns (None, VBool x))
        | VInt k _ \<Rightarrow>
            (case ParseInt str of
               Inl err \<Rightarrow> Returns (Some (ParsingFailed err), v)
             | Inr x \<Rightarrow> Returns (None, VInt k (SetInt k x)))
        | VUint k _ \<Rightarrow>
            (if k = KUintptr then Returns (Some (CannotDecodeType (typeString v)), v)
             else (case ParseUint str of
               Inl err \<Rightarrow> Returns (Some (ParsingFailed err), v)
             | Inr x \<Rightarrow> Returns (None, VUint k (SetUint k x))))
        | VFloat k _ \<Rightarrow>
            (case ParseFloat rt str of
               None \<Rightarrow> Returns (Some (ParsingFailed (FloatSyntax str)), v)
             | Some x \<Rightarrow> Returns (None, VFloat k (SetFloat rt k x)))
        | VArray xs \<Rightarrow>
            (let values = Split str CHR '','' in
             if length xs < length values then Panics ''reflect: call of reflect.Value.Grow on array Value''
             else (case decodeElems rt values xs of
                 Panics p \<Rightarrow> Panics p
               | Returns (err, xs') \<Rightarrow> Returns (err, VArray xs')))
        | VSlice z d \<Rightarrow>
            (let values = Split str CHR '','';
                 (cap, xs) = (case d of None \<Rightarrow> (0, []) | Some (c, ys) \<Rightarrow> (c, ys));
                 (cap', xs') =
                   (if cap < length values
                    then (growCap rt cap (length values),
                          take (length values) (xs @ replicate (length values - length xs) z))
                    else (cap, xs))
             in (case decodeElems rt values xs' of
                 Panics p \<Rightarrow> Panics p
               | Returns (err, xs'') \<Rightarrow>
                   Returns (err, VSlice z (Some (cap', xs'')))))
        | VString _ \<Rightarrow> Returns (None, VString str)
        | _ \<Rightarrow> Returns (Some (CannotDecodeType (typeString v)), v)))"
| "decodeElems rt [] xs = Returns (None, xs)"
| "decodeElems rt (s # ss) [] = Panics ''reflect: slice index out of range''"
| "decodeElems rt (s # ss) (x # xs) =
     (case decode rt (TrimSpace s) x True of
        Panics p \<Rightarrow> Panics p
      | Returns (Some err, x') \<Rightarrow> Returns (Some (ParsingFailed err), x' # xs)
      | Returns (None, x') \<Rightarrow>
          (case decodeElems rt ss xs of
             Panics p \<Rightarrow> Panics p
           | Returns (err, xs') \<Rightarrow> Returns (err, x' # xs')))"
  by pat_completeness auto

lemma maxList_mem: "x \<in> set xs \<Longrightarrow> x \<le> maxList xs"
  by (induction xs) auto

lemma maxList_le: "(\<And>x. x \<in> set xs \<Longrightarrow> x \<le> n) \<Longrightarrow> maxList xs \<le> n"
  by (induction xs) auto

lemma maxList_bound: "(\<And>x. x \<in> set xs \<Longrightarrow> x \<le> n) \<Longrightarrow> 2 * maxList xs < Suc (2 * n)"
  using maxList_le [of xs n] by simp

lemma depth_take_le: "x \<in> set (take n y) \<Longrightarrow> depth x \<le> max m (maxList (map depth y))"
  using maxList_mem [of "depth x" "map depth y"] by (auto dest: in_set_takeD)

termination decode
  apply (relation "measures [\<lambda>a. case a of Inl (rt, str, v, c) \<Rightarrow> 2 * depth v + 1
                                      | Inr (rt, ss, xs) \<Rightarrow> 2 * maxList (map depth xs) + 2,
                          \<lambda>a. case a of Inl (rt, str, v, c) \<Rightarrow> 0
                                      | Inr (rt, ss, xs) \<Rightarrow> length ss]")
      apply simp
     apply simp
    apply (simp split: option.splits if_splits prod.splits)
     apply (rule maxList_bound, simp)
    apply (rule maxList_bound, auto simp: depth_take_le)[1]
   apply (simp_all add: max_def)
  done

section \<open>The grammar (decode.go)\<close>

definition skipSpaces :: "scanner \<Rightarrow> (string \<times> scanner) outcome option" where
  "skipSpaces d = takeWhile_scan (\<lambda>char. char = CHR 0x20) d"

definition name_dec :: "scanner \<Rightarrow> (string \<times> scanner) outcome option" where
  "name_dec d =
     andThen (skipSpaces d) (\<lambda>(_, d1).
     andThen (takeWhile_scan isNameCharOrDigit d1) (\<lambda>(name, d2).
     andThen (skipSpaces d2) (\<lambda>(_, d3). ret (name, d3))))"

text \<open>\<open>hex.Decode\<close> of two bytes: an error (\<open>None\<close>) unless both are hexadecimal
  digits.\<close>

definition fromHexChar :: "char \<Rightarrow> nat option" where
  "fromHexChar c =
     (if CHR ''0'' \<le> c \<and> c \<le> CHR ''9'' then Some (of_char c - of_char CHR ''0'')
      else if CHR ''a'' \<le> c \<and> c \<le> CHR ''f'' then Some (of_char c - of_char CHR ''a'' + 10)
      else if CHR ''A'' \<le> c \<and> c \<le> CHR ''F'' then Some (of_char c - of_char CHR ''A'' + 10)
      else None)"

definition hexDecode :: "char \<Rightarrow> char \<Rightarrow> char option" where
  "hexDecode b0 b1 =
     (case (fromHexChar b0, fromHexChar b1) of
        (Some a, Some b) \<Rightarrow> Some (char_of (16 * a + b))
      | _ \<Rightarrow> None)"

definition takeStringChar :: producer where
  "takeStringChar d =
     (let char = peek d in
      if char = CHR 0x00 \<or> char = CHR 0x27 \<or> isNewlineChar char
      then Returns (([], Some Stop), d)
      else (case consume CHR 0x5C d of (backslash, d1) \<Rightarrow>
          if \<not> backslash
          then (case advance d1 of (c, d2) \<Rightarrow> Returns (([c], None), d2))
          else
            (case advance d1 of (c, d2) \<Rightarrow>
               if c = CHR 0x0D then Returns (([CHR 0x0A], None), snd (consume CHR 0x0A d2))
               else if c = CHR 0x0A then Returns (([CHR 0x0A], None), d2)
               else if c = CHR ''n'' then Returns (([CHR 0x0A], None), d2)
               else if c = CHR ''r'' then Returns (([CHR 0x0D], None), d2)
               else if c = CHR ''t'' then Returns (([CHR 0x09], None), d2)
               else if c = CHR 0x5C then Returns (([CHR 0x5C], None), d2)
               else if c = CHR 0x27 then Returns (([CHR 0x27], None), d2)
               else if c = CHR 0x22 then Returns (([CHR 0x22], None), d2)
               else if c = CHR ''x'' then
                 (if \<not> isHexDigit (peek d2) \<or> \<not> isHexDigit (lookAhead d2 1)
                  then Panics ''TODO''
                  else (case advance d2 of (b0, d3) \<Rightarrow>
                        case advance d3 of (b1, d4) \<Rightarrow>
                          (case hexDecode b0 b1 of
                             None \<Rightarrow> Panics ''encoding/hex: invalid byte''
                           | Some decoded \<Rightarrow> Returns (([decoded], None), d4))))
               else Returns (([], Some InvalidEscapeSequence), d2))))"

text \<open>The literal of a value: the \<open>switch\<close> of \<open>value\<close>. It returns the text read,
  the error, and the scanner.\<close>

definition valueLiteral :: "scanner \<Rightarrow> ((string \<times> error option) \<times> scanner) outcome option" where
  "valueLiteral d =
     (if peek d = CHR 0x27 then
        andThen (take_scan takeStringChar (snd (advance d))) (\<lambda>((s, err), d1).
          case err of
            Some e \<Rightarrow> ret (([], Some e), d1)
          | None \<Rightarrow> ret ((s, None), snd (advance d1)))
      else if peek d = CHR 0x22 then
        andThen (takeUntil (\<lambda>char. char = CHR 0x22) (snd (advance d))) (\<lambda>(s, d1).
          ret ((s, None), snd (advance d1)))
      else if isDigit (peek d) then
        andThen (takeWhile_scan isDigit d) (\<lambda>(s, d1).
          case consume CHR ''.'' d1 of (dot, d2) \<Rightarrow>
            if dot
            then andThen (takeWhile_scan isDigit d2) (\<lambda>(s', d3). ret ((s @ CHR ''.'' # s', None), d3))
            else ret ((s, None), d2))
      else if isNameChar (peek d) then
        andThen (takeWhile_scan isNameCharOrDigit d) (\<lambda>(s, d1). ret ((s, None), d1))
      else if isNewlineChar (peek d) then ret (([], None), d)
      else ret (([], Some (UnexpectedChar (peek d) (lineNum d) (charNum d))), d))"

text \<open>\<open>value\<close>: spaces, the literal, spaces, then after a comma another value, whose
  error the source reads and drops (\<open>if err != nil { }\<close>), then a trailing comment.\<close>

partial_function (option) value_dec ::
  "scanner \<Rightarrow> ((string \<times> error option) \<times> scanner) outcome option"
where
  "value_dec d0 =
     andThen (skipSpaces d0) (\<lambda>(_, d1).
     andThen (valueLiteral d1) (\<lambda>((lit, err), d2).
       case err of
         Some e \<Rightarrow> ret (([], Some e), d2)
       | None \<Rightarrow>
           andThen (skipSpaces d2) (\<lambda>(_, d3).
           andThen
             (case consume CHR '','' d3 of (comma, d4) \<Rightarrow>
                if comma
                then andThen (value_dec d4) (\<lambda>((v, err'), d5). ret (lit @ CHR '','' # v, d5))
                else ret (lit, d4))
             (\<lambda>(val, d6).
                case consume CHR 0x3B d6 of (semi, d7) \<Rightarrow>
                  if semi
                  then andThen (takeUntil isNewlineChar d7) (\<lambda>(_, d8). ret ((val, None), d8))
                  else ret ((val, None), d7)))))"

section \<open>The decoder's loop (decode.go, scan)\<close>

text \<open>One turn of the loop of \<open>scan\<close>, up to the end of its \<open>switch\<close>: \<open>char\<close> is
  read before the spaces are skipped, as the \<open>for\<close> clause does. The turn ends in a
  \<open>return\<close>, in the \<open>continue\<close> of the newline case, or falls out of the \<open>switch\<close>
  to \<open>handleNewline\<close>. \<open>currentSection\<close> is the index of the section it points to.\<close>

datatype flow = Return "error option" | Continue | EndSwitch

definition scanLine ::
  "'f runtime \<Rightarrow> 'f Section list \<Rightarrow> nat option \<Rightarrow> scanner
     \<Rightarrow> (flow \<times> 'f Section list \<times> nat option \<times> scanner) outcome option"
where
  "scanLine rt sections currentSection d0 =
     (let char = peek d0 in
      andThen (skipSpaces d0) (\<lambda>(_, d).
        if char = CHR 0x00 then ret (Return None, sections, currentSection, d)
        else if isNewlineChar char then ret (Continue, sections, currentSection, d)
        else if isNameChar char then
          andThen (name_dec d) (\<lambda>(fieldName, d1).
            case consume CHR ''='' d1 of (eq, d2) \<Rightarrow>
              if \<not> eq
              then ret (Return (Some (UnexpectedChar (peek d2) (lineNum d2) (charNum d2))),
                        sections, currentSection, d2)
              else
                andThen (value_dec d2) (\<lambda>((value, err), d3).
                  case err of
                    Some e \<Rightarrow> ret (Return (Some e), sections, currentSection, d3)
                  | None \<Rightarrow>
                      (case currentSection of
                         None \<Rightarrow>
                           ret (Return (Some KeyMustBeUnderSection), sections, currentSection, d3)
                       | Some idx \<Rightarrow>
                           (case Section_Field (sections ! idx) fieldName of
                              None \<Rightarrow> ret (EndSwitch, sections, currentSection, d3)
                            | Some field \<Rightarrow>
                                (case decode rt (TrimSpace value) (fValue field) (fCanSet field) of
                                   Panics p \<Rightarrow> Some (Panics p)
                                 | Returns (err', v) \<Rightarrow>
                                     (case err' of
                                        Some e \<Rightarrow>
                                          ret (Return (Some e),
                                               assignField sections idx fieldName v,
                                               currentSection, d3)
                                      | None \<Rightarrow>
                                          ret (EndSwitch,
                                               assignField sections idx fieldName v,
                                               currentSection, d3)))))))
        else if char = CHR ''['' then
          andThen (name_dec (snd (advance d))) (\<lambda>(sectionName, d2).
            if sectionName = []
            then ret (Return (Some (UnexpectedChar (peek d2) (lineNum d2) (charNum d2))),
                      sections, currentSection, d2)
            else (case consume CHR '']'' d2 of (close, d3) \<Rightarrow>
              if \<not> close
              then ret (Return (Some (UnexpectedChar (peek d3) (lineNum d3) (charNum d3))),
                        sections, currentSection, d3)
              else (case findSection sections sectionName of
                  None \<Rightarrow> ret (Return (Some (UnknownSection sectionName)), sections, None, d3)
                | Some idx \<Rightarrow> ret (EndSwitch, sections, Some idx, d3))))
        else if char = CHR ''#'' \<or> char = CHR 0x3B then
          andThen (takeUntil isNewlineChar d) (\<lambda>(_, d1).
            ret (EndSwitch, sections, currentSection, d1))
        else ret (Return (Some (UnexpectedChar char (lineNum d) (charNum d))),
                  sections, currentSection, d)))"

text \<open>\<open>scan\<close> returns the error and the tree, whose fields hold what was assigned.\<close>

partial_function (option) scan ::
  "'f runtime \<Rightarrow> 'f Section list \<Rightarrow> nat option \<Rightarrow> scanner
     \<Rightarrow> (error option \<times> 'f Section list) outcome option"
where
  "scan rt sections currentSection d =
     andThen (scanLine rt sections currentSection d) (\<lambda>(fl, sections', currentSection', d1).
       case fl of
         Return err \<Rightarrow> ret (err, sections')
       | Continue \<Rightarrow> scan rt sections' currentSection' d1
       | EndSwitch \<Rightarrow>
           (case handleNewline d1 of (newline, d2) \<Rightarrow>
              if \<not> newline
              then ret (Some (ExpectedNewLine (lineNum d2) (charNum d2)), sections')
              else scan rt sections' currentSection' d2))"

section \<open>Quoting a string (decode.go, quoteString)\<close>

text \<open>\<open>for _, r := range s\<close> decodes \<open>s\<close> as UTF-8: each turn yields a rune and
  steps over its bytes; a byte that starts no valid encoding yields \<open>U+FFFD\<close> and steps
  over one byte. \<open>decodeRune\<close> returns the rune and the number of bytes.\<close>

definition between :: "nat \<Rightarrow> nat \<Rightarrow> char \<Rightarrow> bool" where
  "between lo hi c \<longleftrightarrow> lo \<le> of_char c \<and> (of_char c :: nat) \<le> hi"

definition RuneError :: nat where
  "RuneError = 0xFFFD"

fun decodeRune :: "char list \<Rightarrow> nat \<times> nat" where
  "decodeRune [] = (RuneError, 0)"
| "decodeRune (c0 # s) =
     (let b0 = (of_char c0 :: nat) in
      if b0 < 0x80 then (b0, 1)
      else if b0 < 0xC2 \<or> 0xF4 < b0 then (RuneError, 1)
      else if b0 < 0xE0 then
        (case s of
           c1 # _ \<Rightarrow>
             if between 0x80 0xBF c1 then ((b0 mod 32) * 64 + of_char c1 mod 64, 2)
             else (RuneError, 1)
         | _ \<Rightarrow> (RuneError, 1))
      else if b0 < 0xF0 then
        (case s of
           c1 # c2 # _ \<Rightarrow>
             if between (if b0 = 0xE0 then 0xA0 else 0x80) (if b0 = 0xED then 0x9F else 0xBF) c1
                \<and> between 0x80 0xBF c2
             then ((b0 mod 16) * 4096 + (of_char c1 mod 64) * 64 + of_char c2 mod 64, 3)
             else (RuneError, 1)
         | _ \<Rightarrow> (RuneError, 1))
      else
        (case s of
           c1 # c2 # c3 # _ \<Rightarrow>
             if between (if b0 = 0xF0 then 0x90 else 0x80) (if b0 = 0xF4 then 0x8F else 0xBF) c1
                \<and> between 0x80 0xBF c2 \<and> between 0x80 0xBF c3
             then ((b0 mod 8) * 262144 + (of_char c1 mod 64) * 4096
                   + (of_char c2 mod 64) * 64 + of_char c3 mod 64, 4)
             else (RuneError, 1)
         | _ \<Rightarrow> (RuneError, 1)))"

text \<open>\<open>[]byte(string(r))\<close>: the UTF-8 encoding of a rune; of \<open>U+FFFD\<close> for a surrogate
  or a rune past \<open>U+10FFFF\<close>.\<close>

definition encodeRune :: "nat \<Rightarrow> char list" where
  "encodeRune r =
     (if r < 0x80 then [char_of r]
      else if r < 0x800 then [char_of (0xC0 + r div 64), char_of (0x80 + r mod 64)]
      else if 0x10FFFF < r \<or> (0xD800 \<le> r \<and> r \<le> 0xDFFF)
        then [CHR 0xEF, CHR 0xBF, CHR 0xBD]
      else if r < 0x10000
        then [char_of (0xE0 + r div 4096), char_of (0x80 + (r div 64) mod 64),
              char_of (0x80 + r mod 64)]
      else [char_of (0xF0 + r div 262144), char_of (0x80 + (r div 4096) mod 64),
            char_of (0x80 + (r div 64) mod 64), char_of (0x80 + r mod 64)])"

text \<open>\<open>hex.EncodeToString\<close> of one byte, after \<open>\x\<close>.\<close>

definition hexEscape :: "char \<Rightarrow> char list" where
  "hexEscape c =
     [CHR 0x5C, CHR ''x'', ''0123456789abcdef'' ! (of_char c div 16),
      ''0123456789abcdef'' ! (of_char c mod 16)]"

definition quoteRune :: "nat \<Rightarrow> char list" where
  "quoteRune r =
     (if r \<ge> 0x20 \<and> r \<le> 0x7E then [char_of r]
      else if r = 0x0A then [CHR 0x5C, CHR ''n'']
      else if r = 0x0D then [CHR 0x5C, CHR ''r'']
      else concat (map hexEscape (encodeRune r)))"

lemma decodeRune_size: "s \<noteq> [] \<Longrightarrow> 0 < snd (decodeRune s)"
  by (cases s) (auto simp: Let_def split: list.splits)

function quoteRunes :: "string \<Rightarrow> char list" where
  "quoteRunes s =
     (if s = [] then []
      else (case decodeRune s of (r, width) \<Rightarrow> quoteRune r @ quoteRunes (drop width s)))"
  by pat_completeness auto
termination
  apply (relation "measure length")
   apply simp
  subgoal for s
    using decodeRune_size [of s] by (cases "decodeRune s") auto
  done

definition quoteString :: "string \<Rightarrow> string" where
  "quoteString s = CHR 0x27 # quoteRunes s @ [CHR 0x27]"

section \<open>Annotations (parseTag)\<close>

record flags =
  key :: string
  inline :: bool
  omitempty :: bool
  commented :: bool

definition errUnknownFlag :: "string \<Rightarrow> string \<Rightarrow> string \<Rightarrow> error" where
  "errUnknownFlag tag field t = UnknownFlag tag field t"

definition errDuplicateFlag :: "string \<Rightarrow> string \<Rightarrow> string \<Rightarrow> error" where
  "errDuplicateFlag tag field t = DuplicateFlag tag field t"

text \<open>The loop of \<open>parseTag\<close> over the flags after the key; \<open>t\<close> is \<open>t.String()\<close>.\<close>

fun parseFlags :: "string \<Rightarrow> string \<Rightarrow> string list \<Rightarrow> flags \<Rightarrow> flags \<times> error option" where
  "parseFlags t fieldName [] fl = (fl, None)"
| "parseFlags t fieldName (raw # rest) fl =
     (let flag = TrimSpace raw in
      if flag = ''inline'' then
        (if inline fl then (fl, Some (errDuplicateFlag flag fieldName t))
         else parseFlags t fieldName rest (fl\<lparr>inline := True\<rparr>))
      else if flag = ''omitempty'' then
        (if omitempty fl then (fl, Some (errDuplicateFlag flag fieldName t))
         else parseFlags t fieldName rest (fl\<lparr>omitempty := True\<rparr>))
      else if flag = ''commented'' then
        (if commented fl then (fl, Some (errDuplicateFlag flag fieldName t))
         else parseFlags t fieldName rest (fl\<lparr>commented := True\<rparr>))
      else (fl, Some (errUnknownFlag flag fieldName t)))"

text \<open>\<open>sfTag field\<close> is \<open>field.Tag.Get("ini")\<close>.\<close>

definition parseTag :: "string \<Rightarrow> StructField \<Rightarrow> flags \<times> error option" where
  "parseTag t field =
     (case Cut (sfTag field) CHR '','' of (name, rest0, found) \<Rightarrow>
        let rest = TrimSpace rest0;
            fl = \<lparr>key = TrimSpace name, inline = False, omitempty = False, commented = False\<rparr>
        in if found then
             (if rest = [] then (fl, Some UnexpectedCommaInTag)
              else parseFlags t (sfName field) (Split rest CHR '','') fl)
           else (fl, None))"

section \<open>The shape walk (decode.go)\<close>

text \<open>\<open>errors.Join\<close>: \<open>nil\<close> for no error, else one error that wraps them all.\<close>

definition Join :: "error list \<Rightarrow> error option" where
  "Join errs = (if errs = [] then None else Some (Joined errs))"

text \<open>A \<open>reflect.Value\<close> in the walk: the value and whether it can be set. The
  \<open>switch\<close> on the kind of a member: a pointer is followed and sets \<open>omitempty\<close>, an
  interface is opened; \<open>Elem\<close> of \<open>nil\<close> is the zero \<open>Value\<close>. What a pointer points
  to can be set; what an interface holds cannot.\<close>

type_synonym 'f rvalue = "'f val \<times> bool"

definition fieldElem :: "'f rvalue \<Rightarrow> flags \<Rightarrow> 'f rvalue \<times> flags" where
  "fieldElem fieldValue fl =
     (case fst fieldValue of
        VPointer p \<Rightarrow>
          ((case p of None \<Rightarrow> (VInvalid, False) | Some x \<Rightarrow> (x, True)), fl\<lparr>omitempty := True\<rparr>)
      | VInterface e \<Rightarrow> ((case e of None \<Rightarrow> (VInvalid, False) | Some x \<Rightarrow> (x, False)), fl)
      | _ \<Rightarrow> (fieldValue, fl))"

text \<open>The loop of \<open>walkStructFields\<close> over the members: the values and the errors
  collected. \<open>t\<close> is the name of the struct type, \<open>canSet\<close> whether the struct's
  exported members can be set.\<close>

fun walkStructLoop ::
  "string \<Rightarrow> bool \<Rightarrow> (StructField \<times> 'f val) list
     \<Rightarrow> ('f rvalue \<Rightarrow> StructField \<Rightarrow> flags \<Rightarrow> ('a \<times> error option) outcome)
     \<Rightarrow> ('a list \<times> error list) outcome"
where
  "walkStructLoop t canSet [] f = Returns ([], [])"
| "walkStructLoop t canSet ((field, x) # rest) f =
     (if \<not> sfExported field then walkStructLoop t canSet rest f
      else (case parseTag t field of
          (fl, Some err) \<Rightarrow>
            (case walkStructLoop t canSet rest f of
               Panics p \<Rightarrow> Panics p
             | Returns (vals, errs) \<Rightarrow> Returns (vals, err # errs))
        | (fl, None) \<Rightarrow>
            if key fl = ''-'' then walkStructLoop t canSet rest f
            else
              (case fieldElem (x, canSet) (if key fl = [] then fl\<lparr>key := sfName field\<rparr> else fl) of
                 (fieldValue, fl') \<Rightarrow>
                   (case f fieldValue field fl' of
                      Panics p \<Rightarrow> Panics p
                    | Returns (v, err) \<Rightarrow>
                        (case walkStructLoop t canSet rest f of
                           Panics p \<Rightarrow> Panics p
                         | Returns (vals, errs) \<Rightarrow>
                             (case err of
                                Some e \<Rightarrow> Returns (vals, e # errs)
                              | None \<Rightarrow> Returns (v # vals, errs)))))))"

definition walkStructFields ::
  "'f rvalue \<Rightarrow> ('f rvalue \<Rightarrow> StructField \<Rightarrow> flags \<Rightarrow> ('a \<times> error option) outcome)
     \<Rightarrow> ('a list \<times> error option) outcome"
where
  "walkStructFields v f =
     (case fst v of
        VStruct t members \<Rightarrow>
          (case walkStructLoop t (snd v) members f of
             Panics p \<Rightarrow> Panics p
           | Returns (vals, errs) \<Rightarrow> Returns (vals, Join errs))
      | _ \<Rightarrow> Panics ''reflect: call of reflect.Value.NumField on a Value that is no struct'')"

text \<open>The loop of \<open>walkMap\<close> over the entries, in the order of the iteration. A value
  read from a map cannot be set.\<close>

fun walkMapLoop ::
  "(string \<times> 'f val) list \<Rightarrow> ('f rvalue \<Rightarrow> flags \<Rightarrow> ('a \<times> error option) outcome)
     \<Rightarrow> ('a list \<times> error list) outcome"
where
  "walkMapLoop [] f = Returns ([], [])"
| "walkMapLoop ((k, x) # rest) f =
     (case fieldElem (x, False) \<lparr>key = k, inline = False, omitempty = False, commented = False\<rparr> of
        (v, fl) \<Rightarrow>
          (case f v fl of
             Panics p \<Rightarrow> Panics p
           | Returns (r, err) \<Rightarrow>
               (case walkMapLoop rest f of
                  Panics p \<Rightarrow> Panics p
                | Returns (vals, errs) \<Rightarrow>
                    (case err of
                       Some e \<Rightarrow> Returns (vals, e # errs)
                     | None \<Rightarrow> Returns (r # vals, errs)))))"

definition walkMap ::
  "'f rvalue \<Rightarrow> ('f rvalue \<Rightarrow> flags \<Rightarrow> ('a \<times> error option) outcome)
     \<Rightarrow> ('a list \<times> error option) outcome"
where
  "walkMap v f =
     (case fst v of
        VMap kk entries \<Rightarrow>
          (case walkMapLoop (case entries of None \<Rightarrow> [] | Some es \<Rightarrow> es) f of
             Panics p \<Rightarrow> Panics p
           | Returns (vals, errs) \<Rightarrow> Returns (vals, Join errs))
      | _ \<Rightarrow> Panics ''reflect: call of reflect.Value.MapRange on a Value that is no map'')"

definition isBasicType :: "kind \<Rightarrow> bool" where
  "isBasicType k \<longleftrightarrow>
     k \<in> set [KBool, KArray, KSlice, KString, KInt8, KInt16, KInt32, KInt64,
              KUint8, KUint16, KUint32, KUint64, KInt, KUint, KFloat32, KFloat64]"

definition fieldsOfMap :: "'f rvalue \<Rightarrow> ('f Field list \<times> error option) outcome" where
  "fieldsOfMap section =
     walkMap section (\<lambda>v fl.
       Returns (\<lparr>fName = key fl, fValue = fst v, fCanSet = snd v,
                 fOmitEmpty = omitempty fl, fCommented = commented fl\<rparr>, None))"

lemma walkStructLoop_cong:
  "(\<And>sf x fl fl'. (sf, x) \<in> set members \<Longrightarrow>
       f (fst (fieldElem (x, cs) fl)) sf fl' = g (fst (fieldElem (x, cs) fl)) sf fl')
   \<Longrightarrow> walkStructLoop t cs members f = walkStructLoop t cs members g"
proof (induction members)
  case Nil
  then show ?case by simp
next
  case (Cons m members)
  obtain sf x where m: "m = (sf, x)" by (cases m)
  have IH: "walkStructLoop t cs members f = walkStructLoop t cs members g"
    using Cons by simp
  have step: "\<And>fl fl'. f (fst (fieldElem (x, cs) fl)) sf fl' = g (fst (fieldElem (x, cs) fl)) sf fl'"
    using Cons.prems [of sf x] m by simp
  obtain fl e where p: "parseTag t sf = (fl, e)" by (cases "parseTag t sf")
  obtain fv1 fl1 where a: "fieldElem (x, cs) (fl\<lparr>key := sfName sf\<rparr>) = (fv1, fl1)"
    by (cases "fieldElem (x, cs) (fl\<lparr>key := sfName sf\<rparr>)")
  obtain fv2 fl2 where b: "fieldElem (x, cs) fl = (fv2, fl2)"
    by (cases "fieldElem (x, cs) fl")
  have s1: "f fv1 sf fl1 = g fv1 sf fl1"
    using step [of "fl\<lparr>key := sfName sf\<rparr>" fl1] a by simp
  have s2: "f fv2 sf fl2 = g fv2 sf fl2"
    using step [of fl fl2] b by simp
  show ?case
    unfolding m walkStructLoop.simps IH by (cases e) (simp_all add: p a b s1 s2)
qed

lemma walkStructFields_cong [fundef_cong]:
  assumes "v = v'"
    and "\<And>t members sf x fl fl'. fst v' = VStruct t members \<Longrightarrow> (sf, x) \<in> set members \<Longrightarrow>
       f (fst (fieldElem (x, snd v') fl)) sf fl' = g (fst (fieldElem (x, snd v') fl)) sf fl'"
  shows "walkStructFields v f = walkStructFields v' g"
  unfolding walkStructFields_def assms(1)
  by (cases "fst v'") (simp_all add: walkStructLoop_cong [where f = f and g = g] assms(2))

function fieldsOf ::
  "'f rvalue \<Rightarrow> string \<Rightarrow> StructField option \<Rightarrow> flags \<Rightarrow> ('f Field list \<times> error option) outcome"
  and fieldsOfStruct :: "'f rvalue \<Rightarrow> ('f Field list \<times> error option) outcome"
where
  "fieldsOf v structType field fl =
     (if fst v = VInvalid then Panics ''reflect: call of reflect.Value.Type on zero Value''
      else if Kind (fst v) = KMap \<and> inline fl then
        (case fst v of
           VMap kk entries \<Rightarrow>
             if kk \<noteq> KString then Returns ([], Some MapKeyMustBeString) else fieldsOfMap v
         | _ \<Rightarrow> fieldsOfMap v)
      else if Kind (fst v) = KStruct \<and> inline fl then fieldsOfStruct v
      else if isBasicType (Kind (fst v)) then
        Returns ([\<lparr>fName = key fl, fValue = fst v, fCanSet = snd v,
                   fOmitEmpty = omitempty fl, fCommented = commented fl\<rparr>], None)
      else (case field of
          Some f \<Rightarrow> Returns ([], Some (FieldTypeMustBe structType (sfName f)))
        | None \<Rightarrow> Returns ([], Some (CannotUseType (typeString (fst v))))))"
| "fieldsOfStruct section =
     (case walkStructFields section
             (\<lambda>v f fl. fieldsOf v (typeString (fst section)) (Some f) fl) of
        Panics p \<Rightarrow> Panics p
      | Returns (fs, err) \<Rightarrow> Returns (concat fs, err))"
  by pat_completeness auto
lemma size_fieldElem: "size (fst (fst (fieldElem (x, cs) fl))) \<le> size x"
  by (cases x) (auto simp: fieldElem_def split: option.splits)

lemma size_member: "(sf, x) \<in> set members \<Longrightarrow> size x < size (VStruct t members)"
  by (induction members) auto

termination fieldsOf
  apply (relation "measure (\<lambda>a. case a of Inl (v, t, f, fl) \<Rightarrow> 2 * size (fst v) + 1
                                    | Inr v \<Rightarrow> 2 * size (fst v))")
    apply simp
   apply simp
  subgoal for sec t members sf x fl fl'
    using size_fieldElem [of x "snd sec" fl] size_member [of sf x members t] by simp
  done

definition sectionsOfMap :: "'f rvalue \<Rightarrow> ('f Section list \<times> error option) outcome" where
  "sectionsOfMap root =
     walkMap root (\<lambda>v fl.
       case fieldsOf v [] None (fl\<lparr>inline := True\<rparr>) of
         Panics p \<Rightarrow> Panics p
       | Returns (fs, err) \<Rightarrow>
           (case err of
              Some e \<Rightarrow> Returns (\<lparr>sName = [], sFields = [], sOmitEmpty = False\<rparr>, Some e)
            | None \<Rightarrow>
                Returns (\<lparr>sName = key fl, sFields = fs, sOmitEmpty = omitempty fl\<rparr>, None)))"

definition sectionsOfStruct :: "'f rvalue \<Rightarrow> ('f Section list \<times> error option) outcome" where
  "sectionsOfStruct root =
     walkStructFields root (\<lambda>v f fl.
       case fieldsOf v (typeString (fst root)) (Some f) (fl\<lparr>inline := True\<rparr>) of
         Panics p \<Rightarrow> Panics p
       | Returns (fs, err) \<Rightarrow>
           (case err of
              Some e \<Rightarrow> Returns (\<lparr>sName = [], sFields = [], sOmitEmpty = False\<rparr>, Some e)
            | None \<Rightarrow>
                Returns (\<lparr>sName = key fl, sFields = fs, sOmitEmpty = omitempty fl\<rparr>, None)))"

text \<open>\<open>reflect.Indirect(reflect.ValueOf(value))\<close>: what a pointer points to, which can
  be set; any other value as it is, which cannot.\<close>

definition Indirect :: "'f val \<Rightarrow> 'f rvalue" where
  "Indirect value =
     (case value of
        VPointer p \<Rightarrow> (case p of None \<Rightarrow> (VInvalid, False) | Some x \<Rightarrow> (x, True))
      | _ \<Rightarrow> (value, False))"

definition SectionsOf :: "'f val \<Rightarrow> ('f Section list \<times> error option) outcome" where
  "SectionsOf value =
     (let v = Indirect value in
      if fst v = VInvalid then Panics ''reflect: call of reflect.Value.Type on zero Value''
      else (case fst v of
          VMap kk entries \<Rightarrow>
            if kk \<noteq> KString then Returns ([], Some (CannotUseAsMapKey (typeString (fst v))))
            else sectionsOfMap v
        | VStruct t members \<Rightarrow> sectionsOfStruct v
        | _ \<Rightarrow> Returns ([], Some (InvalidTypeForEncodeDecode (typeString (fst v))))))"

section \<open>Decoding (decode.go)\<close>

text \<open>\<open>Decode\<close> on the bytes the reader holds; \<open>Unmarshal\<close> is \<open>Decode\<close> on a reader of
  \<open>data\<close>, which cannot fail to read.\<close>

definition Decode ::
  "'f runtime \<Rightarrow> string \<Rightarrow> 'f val \<Rightarrow> (error option \<times> 'f Section list) outcome option"
where
  "Decode rt b value =
     (case SectionsOf value of
        Panics p \<Rightarrow> Some (Panics p)
      | Returns (sections, err) \<Rightarrow>
          (case err of
             Some e \<Rightarrow> ret (Some e, sections)
           | None \<Rightarrow> scan rt sections None (init b)))"

definition Unmarshal ::
  "'f runtime \<Rightarrow> string \<Rightarrow> 'f val \<Rightarrow> (error option \<times> 'f Section list) outcome option"
where
  "Unmarshal rt data value = Decode rt data value"

section \<open>Encoding (encode.go)\<close>

text \<open>\<open>encode\<close> returns the bytes and the error; \<open>encodeElems\<close> is its loop over the
  elements of an array or slice, \<open>first\<close> telling the first turn (\<open>i = 0\<close>).\<close>

fun encode :: "'f runtime \<Rightarrow> 'f val \<Rightarrow> (string \<times> error option) outcome"
  and encodeElems :: "'f runtime \<Rightarrow> bool \<Rightarrow> 'f val list \<Rightarrow> (string \<times> error option) outcome"
where
  "encode rt (VInterface e) =
     (case e of
        None \<Rightarrow> Panics ''reflect: call of reflect.Value.Type on zero Value''
      | Some x \<Rightarrow> encode rt x)"
| "encode rt VInvalid = Panics ''reflect: call of reflect.Value.Type on zero Value''"
| "encode rt (VBool b) = Returns (FormatBool b, None)"
| "encode rt (VInt k i) = Returns (FormatInt i, None)"
| "encode rt (VUint k n) =
     (if k = KUintptr then Returns ([], Some (InvalidTypeForEncode (kindName k)))
      else Returns (FormatUint n, None))"
| "encode rt (VFloat k x) =
     Returns (if IsNaN rt x then ''nan''
              else if IsInf rt x 1 then ''inf''
              else if IsInf rt x (- 1) then ''-inf''
              else FormatFloat rt x, None)"
| "encode rt (VArray xs) = encodeElems rt True xs"
| "encode rt (VSlice z None) = encodeElems rt True []"
| "encode rt (VSlice z (Some (c, xs))) = encodeElems rt True xs"
| "encode rt (VString str) = Returns (quoteString str, None)"
| "encode rt (VStruct t members) = Returns ([], Some (InvalidTypeForEncode t))"
| "encode rt (VMap kk entries) = Returns ([], Some (InvalidTypeForEncode (kindName KMap)))"
| "encode rt (VPointer p) = Returns ([], Some (InvalidTypeForEncode (kindName KPointer)))"
| "encode rt (VOther k z) = Returns ([], Some (InvalidTypeForEncode (kindName k)))"
| "encodeElems rt first [] = Returns ([], None)"
| "encodeElems rt first (x # xs) =
     (case encode rt x of
        Panics p \<Rightarrow> Panics p
      | Returns (b, err) \<Rightarrow>
          (case err of
             Some e \<Rightarrow> Returns ([], Some e)
           | None \<Rightarrow>
               (case encodeElems rt False xs of
                  Panics p \<Rightarrow> Panics p
                | Returns (bs, err') \<Rightarrow>
                    (case err' of
                       Some e \<Rightarrow> Returns ([], Some e)
                     | None \<Rightarrow> Returns ((if first then [] else '','') @ b @ bs, None)))))"

text \<open>\<open>reflect.Value.IsZero\<close>, called on a valid value.\<close>

fun IsZero :: "'f runtime \<Rightarrow> 'f val \<Rightarrow> bool" where
  "IsZero rt VInvalid = True"
| "IsZero rt (VBool b) = (\<not> b)"
| "IsZero rt (VInt k i) = (i = 0)"
| "IsZero rt (VUint k n) = (n = 0)"
| "IsZero rt (VFloat k x) = FloatIsZero rt x"
| "IsZero rt (VString str) = (str = [])"
| "IsZero rt (VSlice z d) = (d = None)"
| "IsZero rt (VArray xs) = list_all (IsZero rt) xs"
| "IsZero rt (VStruct t members) = list_all (\<lambda>m. IsZero rt (snd m)) members"
| "IsZero rt (VMap kk entries) = (entries = None)"
| "IsZero rt (VPointer p) = (p = None)"
| "IsZero rt (VInterface e) = (e = None)"
| "IsZero rt (VOther k z) = z"

text \<open>\<open>(*Field).MarshalText\<close>: the bytes (\<open>None\<close> for \<open>nil\<close>) and the error.\<close>

definition MarshalText :: "'f runtime \<Rightarrow> 'f Field \<Rightarrow> (string option \<times> error option) outcome" where
  "MarshalText rt f =
     (if fValue f \<noteq> VInvalid then
        (if \<not> fOmitEmpty f \<or> \<not> IsZero rt (fValue f) then
           (case encode rt (fValue f) of
              Panics p \<Rightarrow> Panics p
            | Returns (b, err) \<Rightarrow>
                (case err of Some e \<Rightarrow> Returns (None, Some e) | None \<Rightarrow> Returns (Some b, None)))
         else Returns (None, None))
      else Returns (None, Some FieldInvalidValue))"

record Encoder =
  skipFieldEncodeFailure :: bool

text \<open>\<open>(*Encoder).field\<close> and \<open>(*Encoder).section\<close> append to the buffer: they return
  the buffer and the error.\<close>

definition field_enc ::
  "'f runtime \<Rightarrow> Encoder \<Rightarrow> string \<Rightarrow> 'f Field \<Rightarrow> (string \<times> error option) outcome"
where
  "field_enc rt e buffer field =
     (case MarshalText rt field of
        Panics p \<Rightarrow> Panics p
      | Returns (b, err) \<Rightarrow>
          (case err of
             Some er \<Rightarrow> Returns (buffer, Some er)
           | None \<Rightarrow>
               (let buf1 = (if fCommented field then buffer @ [CHR 0x3B] else buffer);
                    buf2 = (if b \<noteq> None \<or> fCommented field
                            then buf1 @ fName field @ ''='' @ (case b of None \<Rightarrow> [] | Some bs \<Rightarrow> bs)
                                 @ [CHR 0x0A]
                            else buf1)
                in Returns (buf2, None))))"

fun fields_enc ::
  "'f runtime \<Rightarrow> Encoder \<Rightarrow> string \<Rightarrow> 'f Field list \<Rightarrow> (string \<times> error option) outcome"
where
  "fields_enc rt e buffer [] = Returns (buffer, None)"
| "fields_enc rt e buffer (field # rest) =
     (case field_enc rt e buffer field of
        Panics p \<Rightarrow> Panics p
      | Returns (buffer', err) \<Rightarrow>
          (case err of
             Some er \<Rightarrow>
               if \<not> skipFieldEncodeFailure e then Returns (buffer', Some er)
               else fields_enc rt e buffer' rest
           | None \<Rightarrow> fields_enc rt e buffer' rest))"

definition section_enc ::
  "'f runtime \<Rightarrow> Encoder \<Rightarrow> string \<Rightarrow> 'f Section \<Rightarrow> (string \<times> error option) outcome"
where
  "section_enc rt e buffer sec =
     fields_enc rt e (buffer @ ''['' @ sName sec @ '']'' @ [CHR 0x0A]) (sFields sec)"

fun sections_enc ::
  "'f runtime \<Rightarrow> Encoder \<Rightarrow> string \<Rightarrow> 'f Section list \<Rightarrow> (string \<times> error option) outcome"
where
  "sections_enc rt e buffer [] = Returns (buffer, None)"
| "sections_enc rt e buffer (sec # rest) =
     (case section_enc rt e buffer sec of
        Panics p \<Rightarrow> Panics p
      | Returns (buffer', err) \<Rightarrow>
          (case err of
             Some er \<Rightarrow> Returns (buffer', Some er)
           | None \<Rightarrow> sections_enc rt e buffer' rest))"

text \<open>The writer \<open>e.w\<close> is its state \<open>w\<close> and its \<open>Write\<close>, which returns the error and
  the state after the call. \<open>Encode\<close> returns the error and the writer's state.\<close>

type_synonym 'w writer = "string \<Rightarrow> 'w \<Rightarrow> error option \<times> 'w"

definition Encode ::
  "'f runtime \<Rightarrow> Encoder \<Rightarrow> 'w writer \<Rightarrow> 'w \<Rightarrow> 'f val \<Rightarrow> (error option \<times> 'w) outcome"
where
  "Encode rt e Write w data =
     (case SectionsOf data of
        Panics p \<Rightarrow> Panics p
      | Returns (sections, err) \<Rightarrow>
          (case err of
             Some er \<Rightarrow> Returns (Some er, w)
           | None \<Rightarrow>
               (case sections_enc rt e [] sections of
                  Panics p \<Rightarrow> Panics p
                | Returns (buffer, err') \<Rightarrow>
                    (case err' of
                       Some er \<Rightarrow> Returns (Some er, w)
                     | None \<Rightarrow>
                         (case Write buffer w of
                            (Some er, w') \<Rightarrow> Returns (Some (WriteFailed er), w')
                          | (None, w') \<Rightarrow> Returns (None, w'))))))"

text \<open>\<open>Marshal\<close> encodes into a \<open>bytes.Buffer\<close>, whose \<open>Write\<close> appends and cannot
  fail, with an \<open>Encoder\<close> whose options are off.\<close>

definition bufferWrite :: "string writer" where
  "bufferWrite p w = (None, w @ p)"

definition Marshal :: "'f runtime \<Rightarrow> 'f val \<Rightarrow> (string \<times> error option) outcome" where
  "Marshal rt value =
     (case Encode rt \<lparr>skipFieldEncodeFailure = False\<rparr> bufferWrite [] value of
        Panics p \<Rightarrow> Panics p
      | Returns (err, buffer) \<Rightarrow>
          (case err of Some er \<Rightarrow> Returns ([], Some er) | None \<Rightarrow> Returns (buffer, None)))"

section \<open>The documented example of Marshal\<close>

text \<open>The types of the example of \<open>Marshal\<close> (encode.go, encode\_test.go): \<open>Settings\<close> has
  one member \<open>Video\<close> of type \<open>VideoSettings\<close>.\<close>

definition VideoSettings :: "int \<Rightarrow> int \<Rightarrow> bool \<Rightarrow> 'f val" where
  "VideoSettings w h fs =
     VStruct ''ini_test.VideoSettings''
       [(\<lparr>sfName = ''Width'', sfExported = True, sfTag = ''width''\<rparr>, VInt KInt w),
        (\<lparr>sfName = ''Height'', sfExported = True, sfTag = ''height''\<rparr>, VInt KInt h),
        (\<lparr>sfName = ''FullScreen'', sfExported = True, sfTag = ''fullscreen,omitempty,commented''\<rparr>,
         VBool fs)]"

definition Settings :: "'f val \<Rightarrow> 'f val" where
  "Settings video =
     VStruct ''ini_test.Settings''
       [(\<lparr>sfName = ''Video'', sfExported = True, sfTag = []\<rparr>, video)]"

lemma TrimSpace_eval:
  "TrimSpace [] = []" "TrimSpace ''width'' = ''width''" "TrimSpace ''height'' = ''height''"
  "TrimSpace ''fullscreen'' = ''fullscreen''" "TrimSpace ''omitempty'' = ''omitempty''"
  "TrimSpace ''commented'' = ''commented''"
  "TrimSpace ''omitempty,commented'' = ''omitempty,commented''"
  by (simp_all add: TrimSpace_def spaceEncodings_def)

lemma parseTag_eval:
  "parseTag t \<lparr>sfName = n, sfExported = True, sfTag = []\<rparr>
     = (\<lparr>key = [], inline = False, omitempty = False, commented = False\<rparr>, None)"
  "parseTag t \<lparr>sfName = n, sfExported = True, sfTag = ''width''\<rparr>
     = (\<lparr>key = ''width'', inline = False, omitempty = False, commented = False\<rparr>, None)"
  "parseTag t \<lparr>sfName = n, sfExported = True, sfTag = ''height''\<rparr>
     = (\<lparr>key = ''height'', inline = False, omitempty = False, commented = False\<rparr>, None)"
  "parseTag t \<lparr>sfName = n, sfExported = True, sfTag = ''fullscreen,omitempty,commented''\<rparr>
     = (\<lparr>key = ''fullscreen'', inline = False, omitempty = True, commented = True\<rparr>, None)"
  by (simp_all add: parseTag_def Cut_def TrimSpace_eval del: TrimLeftSpace.simps)

text \<open>The section tree of a \<open>Settings\<close> value passed by value.\<close>

definition VideoSection :: "int \<Rightarrow> int \<Rightarrow> bool \<Rightarrow> 'f Section" where
  "VideoSection w h fs =
     \<lparr>sName = ''Video'',
      sFields =
        [\<lparr>fName = ''width'', fValue = VInt KInt w, fCanSet = False,
           fOmitEmpty = False, fCommented = False\<rparr>,
         \<lparr>fName = ''height'', fValue = VInt KInt h, fCanSet = False,
           fOmitEmpty = False, fCommented = False\<rparr>,
         \<lparr>fName = ''fullscreen'', fValue = VBool fs, fCanSet = False,
           fOmitEmpty = True, fCommented = True\<rparr>],
      sOmitEmpty = False\<rparr>"

lemma SectionsOf_Settings:
  "SectionsOf (Settings (VideoSettings w h fs)) = Returns ([VideoSection w h fs], None)"
  by (simp add: Settings_def VideoSettings_def VideoSection_def SectionsOf_def Indirect_def
      sectionsOfStruct_def walkStructFields_def parseTag_eval fieldElem_def isBasicType_def
      Join_def typeString_def)

lemma Marshal_filled:
  "Marshal rt (Settings (VideoSettings 1024 768 True)) =
     Returns (''[Video]\<newline>width=1024\<newline>height=768\<newline>;fullscreen=true\<newline>'', None)"
  by (simp add: Marshal_def Encode_def SectionsOf_Settings VideoSection_def section_enc_def
      field_enc_def MarshalText_def bufferWrite_def FormatInt_def FormatBool_def)

lemma Marshal_zero:
  "Marshal rt (Settings (VideoSettings 0 0 False)) =
     Returns (''[Video]\<newline>width=0\<newline>height=0\<newline>;fullscreen=\<newline>'', None)"
  by (simp add: Marshal_def Encode_def SectionsOf_Settings VideoSection_def section_enc_def
      field_enc_def MarshalText_def bufferWrite_def FormatInt_def FormatBool_def)
text \<open>
  Claim C8. Encoding the \<open>Settings\<close>/\<open>VideoSettings\<close> example, whose member
  \<open>FullScreen\<close> is tagged \<open>fullscreen,omitempty,commented\<close>, gives exactly
  \<open>[Video]\nwidth=1024\nheight=768\n;fullscreen=true\n\<close> for the filled value and
  \<open>[Video]\nwidth=0\nheight=0\n;fullscreen=\n\<close> for the zero value: the commented,
  omitted zero member still gives a line, prefixed with \<open>;\<close> and with no value text.
\<close>

theorem C8_marshal_settings_example:
  "Marshal rt (Settings (VideoSettings 1024 768 True)) =
     Returns (''[Video]\<newline>width=1024\<newline>height=768\<newline>;fullscreen=true\<newline>'', None)
   \<and> Marshal rt (Settings (VideoSettings 0 0 False)) =
     Returns (''[Video]\<newline>width=0\<newline>height=0\<newline>;fullscreen=\<newline>'', None)"
  by (simp only: Marshal_filled Marshal_zero)

section \<open>Decoding and encoding given documents\<close>

text \<open>A target to decode into, and to encode: \<open>Target\<close> has one member \<open>S\<close> of the
  struct type \<open>Inner\<close>, whose members are \<open>K string `ini:"k"`\<close> and
  \<open>N int `ini:"n"`\<close>. \<open>TargetSection\<close> is its section tree; its fields can be set
  when the target is passed by pointer.\<close>

definition Inner :: "string \<Rightarrow> int \<Rightarrow> 'f val" where
  "Inner k n =
     VStruct ''Inner''
       [(\<lparr>sfName = ''K'', sfExported = True, sfTag = ''k''\<rparr>, VString k),
        (\<lparr>sfName = ''N'', sfExported = True, sfTag = ''n''\<rparr>, VInt KInt n)]"

definition Target :: "string \<Rightarrow> int \<Rightarrow> 'f val" where
  "Target k n = VStruct ''Target'' [(\<lparr>sfName = ''S'', sfExported = True, sfTag = []\<rparr>, Inner k n)]"

definition TargetSection :: "bool \<Rightarrow> string \<Rightarrow> int \<Rightarrow> 'f Section" where
  "TargetSection canSet k n =
     \<lparr>sName = ''S'',
      sFields =
        [\<lparr>fName = ''k'', fValue = VString k, fCanSet = canSet, fOmitEmpty = False, fCommented = False\<rparr>,
         \<lparr>fName = ''n'', fValue = VInt KInt n, fCanSet = canSet, fOmitEmpty = False, fCommented = False\<rparr>],
      sOmitEmpty = False\<rparr>"

lemma TrimSpace_kn: "TrimSpace ''k'' = ''k''" "TrimSpace ''n'' = ''n''"
  by (simp_all add: TrimSpace_def spaceEncodings_def)

lemma parseTag_kn:
  "parseTag t \<lparr>sfName = m, sfExported = True, sfTag = ''k''\<rparr>
     = (\<lparr>key = ''k'', inline = False, omitempty = False, commented = False\<rparr>, None)"
  "parseTag t \<lparr>sfName = m, sfExported = True, sfTag = ''n''\<rparr>
     = (\<lparr>key = ''n'', inline = False, omitempty = False, commented = False\<rparr>, None)"
  by (simp_all add: parseTag_def Cut_def TrimSpace_kn TrimSpace_eval del: TrimLeftSpace.simps)

lemma SectionsOf_Target:
  "SectionsOf (Target k n) = Returns ([TargetSection False k n], None)"
  "SectionsOf (VPointer (Some (Target k n))) = Returns ([TargetSection True k n], None)"
  by (simp_all add: Target_def Inner_def TargetSection_def SectionsOf_def Indirect_def
      sectionsOfStruct_def walkStructFields_def parseTag_eval parseTag_kn fieldElem_def
      isBasicType_def Join_def typeString_def)

text \<open>The equations that evaluate a decode of a given text.\<close>

lemmas scan_eval = scan.simps scanLine_def value_dec.simps valueLiteral_def takeStringChar_def
  name_dec_def skipSpaces_def takeWhile_scan_def takeUntil_def take_scan_def takeLoop.simps
  whileProducer_def untilProducer_def dropErr_def andThen_simps consume_def advance_def
  handleNewline_def peek_def lookAhead_def init_def isNameChar_def isDigit_def isHexDigit_def
  isNameCharOrDigit_def isNewlineChar_def Section_Field_def assignField_def findSection_def
  TrimSpace_def spaceEncodings_def ParseInt_def ParseUint_def ParseBool_def digitsVal_def digitVal_def
  SetInt_def SetUint_def bitSize_def hexDecode_def fromHexChar_def Let_def char_of_def bit_iff_odd

lemmas quote_eval = quoteString_def quoteRune_def char_of_def bit_iff_odd

lemmas unmarshal_eval = Unmarshal_def Decode_def SectionsOf_Target TargetSection_def

text \<open>
  Claim C7 (leading spaces are skipped before the dispatch, so a document with spaces
  before its section headers, keys or comments decodes as the document without them)
  fails on the code: \<open>scan\<close> reads \<open>char\<close> before it calls \<open>skipSpaces\<close> and dispatches
  on that stale \<open>char\<close>. The document \<open>" [S]\n"\<close> is refused with the unexpected
  character \<open>' '\<close> at 1:2, while \<open>"[S]\n"\<close> decodes.
\<close>

theorem C7_leading_space_is_unexpected:
  "Unmarshal rt '' [S]\<newline>'' (VPointer (Some (Target [] 0)))
     = ret (Some (UnexpectedChar CHR 0x20 1 2), [TargetSection True [] 0])
   \<and> Unmarshal rt ''[S]\<newline>'' (VPointer (Some (Target [] 0)))
     = ret (None, [TargetSection True [] 0])"
  by (simp add: unmarshal_eval scan_eval cong: andThen_cong_weak)

text \<open>
  Claim C5 (an unterminated single quote, or an invalid or incomplete \<open>\xHH\<close> escape,
  makes the decode return a fatal syntax error: no silent success, no crash) fails on
  the code twice. The document \<open>[S]\nk='\xZZ'\n\<close> makes \<open>takeStringChar\<close> panic with
  \<open>"TODO"\<close>; the document \<open>[S]\nk='abc\n\n\<close>, whose quote is never closed, decodes
  without an error and assigns \<open>abc\<close>.
\<close>

theorem C5_bad_hex_panics_open_quote_succeeds:
  "Unmarshal rt (''[S]\<newline>k='' @ [CHR 0x27, CHR 0x5C] @ ''xZZ'' @ [CHR 0x27] @ ''\<newline>'')
       (VPointer (Some (Target [] 0)))
     = Some (Panics ''TODO'')
   \<and> Unmarshal rt (''[S]\<newline>k='' @ [CHR 0x27] @ ''abc\<newline>\<newline>'') (VPointer (Some (Target [] 0)))
     = ret (None, [TargetSection True ''abc'' 0])"
  by (simp add: unmarshal_eval scan_eval cong: andThen_cong_weak)

text \<open>
  Claim C6 (after a comma the decoder parses another value and joins the two with a
  comma; a failure of that parse is propagated and aborts the decode) fails on the code
  in its second half: \<open>value\<close> reads the error of the recursive call and drops it
  (\<open>if err != nil { }\<close>). In \<open>[S]\nk=1,;c\n\<close> the value after the comma fails on the
  unexpected \<open>;\<close> at 2:5, yet the outer value is \<open>1,\<close> with no error and the decode
  succeeds, assigning \<open>1,\<close>.
\<close>

theorem C6_error_after_comma_is_dropped:
  "value_dec \<lparr>buf = ''[S]\<newline>k=1,;c\<newline>'', bufPos = 8, lineNum = 2, charNum = 5,
              prevLineCharNum = 4\<rparr>
     = ret (([], Some (UnexpectedChar CHR 0x3B 2 5)),
            \<lparr>buf = ''[S]\<newline>k=1,;c\<newline>'', bufPos = 8, lineNum = 2, charNum = 5,
             prevLineCharNum = 4\<rparr>)
   \<and> value_dec \<lparr>buf = ''[S]\<newline>k=1,;c\<newline>'', bufPos = 6, lineNum = 2, charNum = 3,
                prevLineCharNum = 4\<rparr>
     = ret ((''1,'', None),
            \<lparr>buf = ''[S]\<newline>k=1,;c\<newline>'', bufPos = 10, lineNum = 2, charNum = 7,
             prevLineCharNum = 4\<rparr>)
   \<and> Unmarshal rt ''[S]\<newline>k=1,;c\<newline>'' (VPointer (Some (Target [] 0)))
     = ret (None, [TargetSection True ''1,'' 0])"
  by (simp add: unmarshal_eval scan_eval cong: andThen_cong_weak)

text \<open>
  Claim C2 (the encoder's rendering of a text is always read back by the decoder's
  single-quote grammar as the same text) fails on the code: \<open>quoteString\<close> passes the
  printable bytes \<open>'\<close> and \<open>\\<close> through, and the decoder ends the string at \<open>'\<close>
  and reads \<open>\\<close> as the start of an escape. The text \<open>it's\<close> is rendered \<open>'it's'\<close>,
  read back as \<open>it\<close>, and the decode of \<open>k='it's'\<close> fails; the text \<open>a\nb\<close> (with a
  backslash and an \<open>n\<close>) is rendered \<open>'a\nb'\<close> and decoded, without an error, as
  \<open>a\<close>, a line feed, \<open>b\<close>.
\<close>

theorem C2_quote_and_backslash_not_escaped:
  "quoteString (''it'' @ [CHR 0x27] @ ''s'') = [CHR 0x27] @ ''it'' @ [CHR 0x27] @ ''s'' @ [CHR 0x27]
   \<and> (\<exists>d. value_dec (init (quoteString (''it'' @ [CHR 0x27] @ ''s''))) = ret ((''it'', None), d))
   \<and> Unmarshal rt (''[S]\<newline>k='' @ quoteString (''it'' @ [CHR 0x27] @ ''s'') @ ''\<newline>'')
         (VPointer (Some (Target [] 0)))
       = ret (Some (ExpectedNewLine 2 7), [TargetSection True ''it'' 0])
   \<and> quoteString (''a'' @ [CHR 0x5C] @ ''nb'') = [CHR 0x27] @ ''a'' @ [CHR 0x5C] @ ''nb'' @ [CHR 0x27]
   \<and> Unmarshal rt (''[S]\<newline>k='' @ quoteString (''a'' @ [CHR 0x5C] @ ''nb'') @ ''\<newline>'')
         (VPointer (Some (Target [] 0)))
       = ret (None, [TargetSection True ''a\<newline>b'' 0])"
  by (simp add: quote_eval) (simp add: unmarshal_eval scan_eval cong: andThen_cong_weak)

text \<open>
  Claim C1 (decoding what encoding a value gave yields an equal value) fails on the
  code for a negative integer: the encoder writes \<open>-1\<close> and the value grammar of the
  decoder has no case for \<open>-\<close>. \<open>Target "a" (-1)\<close> is encoded as
  \<open>[S]\nk='a'\nn=-1\n\<close>, and decoding that text into a zero \<open>Target\<close> stops with the
  unexpected character \<open>-\<close> at 3:3, leaving \<open>N\<close> at \<open>0\<close>.
\<close>

theorem C1_negative_int_does_not_round_trip:
  "Marshal rt (Target ''a'' (- 1)) = Returns (''[S]\<newline>k='' @ [CHR 0x27] @ ''a'' @ [CHR 0x27] @ ''\<newline>n=-1\<newline>'', None)
   \<and> Unmarshal rt (''[S]\<newline>k='' @ [CHR 0x27] @ ''a'' @ [CHR 0x27] @ ''\<newline>n=-1\<newline>'')
         (VPointer (Some (Target [] 0)))
       = ret (Some (UnexpectedChar CHR ''-'' 3 3), [TargetSection True ''a'' 0])"
  by (simp add: Marshal_def Encode_def SectionsOf_Target TargetSection_def section_enc_def
        field_enc_def MarshalText_def bufferWrite_def FormatInt_def quote_eval)
     (simp add: unmarshal_eval scan_eval cong: andThen_cong_weak)

section \<open>Blank lines\<close>

text \<open>Where the cursor stands on a newline, one turn of \<open>scan\<close> changes nothing and
  continues.\<close>

lemma takeLoop_stop:
  "f base = Returns (([], Some Stop), base) \<Longrightarrow> takeLoop f result base = ret ((result, None), base)"
  by (subst takeLoop.simps) simp

lemma skipSpaces_no_space:
  "peek d \<noteq> CHR 0x20 \<Longrightarrow> skipSpaces d = ret ([], d)"
  by (simp add: skipSpaces_def takeWhile_scan_def take_scan_def dropErr_def
      takeLoop_stop whileProducer_def)

lemma scanLine_newline:
  "isNewlineChar (peek d) \<Longrightarrow> scanLine rt secs cur d = ret (Continue, secs, cur, d)"
  by (auto simp: scanLine_def skipSpaces_no_space andThen_simps isNewlineChar_def)

lemma scan_returns_not_at_newline:
  assumes major: "scan rt secs cur d = Some y"
  shows "\<not> isNewlineChar (peek d)"
proof (rule scan.raw_induct [where P = "\<lambda>rt secs cur d y. \<not> isNewlineChar (peek d)", OF _ major])
  fix scan' :: "'a runtime \<Rightarrow> 'a Section list \<Rightarrow> nat option \<Rightarrow> scanner
     \<Rightarrow> (error option \<times> 'a Section list) outcome option"
  fix rt secs cur d r
  assume IH: "\<And>rt secs cur d y. scan' rt secs cur d = Some y \<Longrightarrow> \<not> isNewlineChar (peek d)"
  assume body: "andThen (scanLine rt secs cur d)
      (\<lambda>(fl, sections', currentSection', d1).
          case fl of Return err \<Rightarrow> ret (err, sections')
          | Continue \<Rightarrow> scan' rt sections' currentSection' d1
          | EndSwitch \<Rightarrow>
              case handleNewline d1 of
              (newline, d2) \<Rightarrow>
                if \<not> newline
                then ret (Some (ExpectedNewLine (lineNum d2) (charNum d2)), sections')
                else scan' rt sections' currentSection' d2) = Some r"
  show "\<not> isNewlineChar (peek d)"
  proof
    assume nl: "isNewlineChar (peek d)"
    from body have "scan' rt secs cur d = Some r"
      by (simp add: scanLine_newline [OF nl] andThen_simps)
    from IH [OF this] nl show False by simp
  qed
qed

lemma scan_never_returns_at_newline:
  "isNewlineChar (peek d) \<Longrightarrow> scan rt secs cur d = None"
  using scan_returns_not_at_newline [of rt secs cur d] by (cases "scan rt secs cur d") auto

lemmas line_eval = scanLine_def value_dec.simps valueLiteral_def takeStringChar_def
  name_dec_def skipSpaces_def takeWhile_scan_def takeUntil_def take_scan_def takeLoop.simps
  whileProducer_def untilProducer_def dropErr_def andThen_simps consume_def advance_def
  handleNewline_def peek_def lookAhead_def init_def isNameChar_def isDigit_def isHexDigit_def
  isNameCharOrDigit_def isNewlineChar_def Section_Field_def assignField_def findSection_def
  Let_def

text \<open>
  Claim C3 (a decode call terminates on every input; a blank line between constructs is
  consumed as a no-op and scanning goes on with the next line) fails on the code: the
  newline case of \<open>scan\<close> is \<open>continue\<close>, which skips \<open>handleNewline\<close>, so the cursor
  stays on the newline and the loop turns forever (lemma
  \<open>scan_never_returns_at_newline\<close>: \<open>scan\<close> started on a newline never returns). The
  documents \<open>"\n"\<close> and \<open>"[S]\n\nk=a\n"\<close> are decodes that never return.
\<close>

theorem C3_blank_line_never_returns:
  "Unmarshal rt ''\<newline>'' (VPointer (Some (Target [] 0))) = None
   \<and> Unmarshal rt ''[S]\<newline>\<newline>k=a\<newline>'' (VPointer (Some (Target [] 0))) = None"
proof
  show "Unmarshal rt ''\<newline>'' (VPointer (Some (Target [] 0))) = None"
    by (simp add: unmarshal_eval)
       (rule scan_never_returns_at_newline, simp add: peek_def lookAhead_def init_def isNewlineChar_def)
  show "Unmarshal rt ''[S]\<newline>\<newline>k=a\<newline>'' (VPointer (Some (Target [] 0))) = None"
    apply (simp add: unmarshal_eval)
    apply (subst scan.simps)
    apply (simp add: line_eval cong: andThen_cong_weak)
    apply (rule scan_never_returns_at_newline)
    apply (simp add: peek_def lookAhead_def isNewlineChar_def)
    done
qed

section \<open>Unknown sections and unknown keys\<close>

text \<open>A runtime for the witnesses, whose documents hold no floating-point number.\<close>

definition noFloats :: "unit runtime" where
  "noFloats = \<lparr>FormatFloat = (\<lambda>x. ''0''), ParseFloat = (\<lambda>s. None), IsNaN = (\<lambda>x. False),
               IsInf = (\<lambda>x sign. False), SetFloat = (\<lambda>k x. x), FloatIsZero = (\<lambda>x. True),
               growCap = (\<lambda>cap n. cap + n)\<rparr>"

text \<open>
  Claim C4. Where \<open>scan\<close> stands on a section header \<open>[nm]\<close> and no section of the
  target is named \<open>nm\<close>, the decode returns the error "unknown section named nm" with
  the target untouched. Where it stands on a line \<open>k=v\<close>, a section is open and has no
  field named \<open>k\<close>, the value is scanned, nothing is assigned and no error is raised:
  the decode goes on behind the value, with the same target and section, to the
  newline the line must end with.
\<close>

theorem C4_unknown_section_fatal_unknown_key_skipped:
  "(peek d = CHR ''['' \<and> name_dec (snd (advance d)) = ret (nm, d2) \<and> nm \<noteq> []
      \<and> consume CHR '']'' d2 = (True, d3) \<and> findSection secs nm = None
     \<longrightarrow> scan rt secs cur d = ret (Some (UnknownSection nm), secs))
   \<and> (isNameChar (peek e) \<and> name_dec e = ret (k, e1) \<and> consume CHR ''='' e1 = (True, e2)
      \<and> value_dec e2 = ret ((v, None), e3) \<and> cur' = Some idx
      \<and> Section_Field (secs ! idx) k = None
     \<longrightarrow> scan rt secs cur' e =
          (case handleNewline e3 of (newline, e4) \<Rightarrow>
             if newline then scan rt secs cur' e4
             else ret (Some (ExpectedNewLine (lineNum e4) (charNum e4)), secs)))"
proof (intro conjI impI)
  assume a: "peek d = CHR ''['' \<and> name_dec (snd (advance d)) = ret (nm, d2) \<and> nm \<noteq> []
      \<and> consume CHR '']'' d2 = (True, d3) \<and> findSection secs nm = None"
  then have sp: "skipSpaces d = ret ([], d)" by (simp add: skipSpaces_no_space)
  show "scan rt secs cur d = ret (Some (UnknownSection nm), secs)"
    using a by (subst scan.simps)
      (simp add: scanLine_def sp andThen_simps isNewlineChar_def isNameChar_def)
next
  assume b: "isNameChar (peek e) \<and> name_dec e = ret (k, e1) \<and> consume CHR ''='' e1 = (True, e2)
      \<and> value_dec e2 = ret ((v, None), e3) \<and> cur' = Some idx
      \<and> Section_Field (secs ! idx) k = None"
  then have "peek e \<noteq> CHR 0x20" by (auto simp: isNameChar_def)
  then have sp: "skipSpaces e = ret ([], e)" by (rule skipSpaces_no_space)
  have nz: "peek e \<noteq> CHR 0x00" "\<not> isNewlineChar (peek e)"
    using b by (auto simp: isNameChar_def isNewlineChar_def)
  show "scan rt secs cur' e =
          (case handleNewline e3 of (newline, e4) \<Rightarrow>
             if newline then scan rt secs cur' e4
             else ret (Some (ExpectedNewLine (lineNum e4) (charNum e4)), secs))"
    using b nz by (subst scan.simps)
      (simp add: scanLine_def sp andThen_simps split: prod.splits)
qed
text \<open>Witness of C4: \<open>[T]\<close> against a target with the one section \<open>S\<close>; and line 2 of
  \<open>[S]\nj=1\nk=b\n\<close>, whose key \<open>j\<close> the section lacks: the decode goes on and assigns
  \<open>k\<close>.\<close>

theorem C4_witness:
  "scan noFloats [TargetSection True [] 0] None (init ''[T]\<newline>'')
     = ret (Some (UnknownSection ''T''), [TargetSection True [] 0])
   \<and> scan noFloats [TargetSection True [] 0] (Some 0)
       \<lparr>buf = ''[S]\<newline>j=1\<newline>k=b\<newline>'', bufPos = 4, lineNum = 2, charNum = 1, prevLineCharNum = 4\<rparr>
     = ret (None, [TargetSection True ''b'' 0])"
proof -
  let ?doc = "''[S]\<newline>j=1\<newline>k=b\<newline>''"
  have h1: "peek (init ''[T]\<newline>'') = CHR ''[''
      \<and> name_dec (snd (advance (init ''[T]\<newline>'')))
          = ret (''T'', \<lparr>buf = ''[T]\<newline>'', bufPos = 2, lineNum = 1, charNum = 3, prevLineCharNum = 0\<rparr>)
      \<and> ''T'' \<noteq> []
      \<and> consume CHR '']'' \<lparr>buf = ''[T]\<newline>'', bufPos = 2, lineNum = 1, charNum = 3, prevLineCharNum = 0\<rparr>
          = (True, \<lparr>buf = ''[T]\<newline>'', bufPos = 3, lineNum = 1, charNum = 4, prevLineCharNum = 0\<rparr>)
      \<and> findSection [TargetSection True [] 0 :: unit Section] ''T'' = None"
    by (simp add: line_eval TargetSection_def cong: andThen_cong_weak)
  have h2: "isNameChar (peek \<lparr>buf = ?doc, bufPos = 4, lineNum = 2, charNum = 1, prevLineCharNum = 4\<rparr>)
      \<and> name_dec \<lparr>buf = ?doc, bufPos = 4, lineNum = 2, charNum = 1, prevLineCharNum = 4\<rparr>
          = ret (''j'', \<lparr>buf = ?doc, bufPos = 5, lineNum = 2, charNum = 2, prevLineCharNum = 4\<rparr>)
      \<and> consume CHR ''='' \<lparr>buf = ?doc, bufPos = 5, lineNum = 2, charNum = 2, prevLineCharNum = 4\<rparr>
          = (True, \<lparr>buf = ?doc, bufPos = 6, lineNum = 2, charNum = 3, prevLineCharNum = 4\<rparr>)
      \<and> value_dec \<lparr>buf = ?doc, bufPos = 6, lineNum = 2, charNum = 3, prevLineCharNum = 4\<rparr>
          = ret ((''1'', None), \<lparr>buf = ?doc, bufPos = 7, lineNum = 2, charNum = 4, prevLineCharNum = 4\<rparr>)
      \<and> Some 0 = Some (0::nat)
      \<and> Section_Field ([TargetSection True [] 0 :: unit Section] ! 0) ''j'' = None"
    by (simp add: line_eval TargetSection_def cong: andThen_cong_weak)
  have rest: "scan noFloats [TargetSection True [] 0] (Some 0)
       \<lparr>buf = ?doc, bufPos = 8, lineNum = 3, charNum = 1, prevLineCharNum = 4\<rparr>
     = ret (None, [TargetSection True ''b'' 0])"
    by (simp add: scan_eval TargetSection_def cong: andThen_cong_weak)
  have nl: "handleNewline \<lparr>buf = ?doc, bufPos = 7, lineNum = 2, charNum = 4, prevLineCharNum = 4\<rparr>
     = (True, \<lparr>buf = ?doc, bufPos = 8, lineNum = 3, charNum = 1, prevLineCharNum = 4\<rparr>)"
    by (simp add: handleNewline_def peek_def lookAhead_def)
  show ?thesis
    using C4_unknown_section_fatal_unknown_key_skipped
      [where d = "init ''[T]\<newline>''" and nm = "''T''" and secs = "[TargetSection True [] 0]"
         and rt = noFloats and cur = None and cur' = "Some 0" and idx = 0 and k = "''j''"
         and v = "''1''"
         and e = "\<lparr>buf = ?doc, bufPos = 4, lineNum = 2, charNum = 1, prevLineCharNum = 4\<rparr>"
         and ?e1.0 = "\<lparr>buf = ?doc, bufPos = 5, lineNum = 2, charNum = 2, prevLineCharNum = 4\<rparr>"
         and ?e2.0 = "\<lparr>buf = ?doc, bufPos = 6, lineNum = 2, charNum = 3, prevLineCharNum = 4\<rparr>"
         and ?e3.0 = "\<lparr>buf = ?doc, bufPos = 7, lineNum = 2, charNum = 4, prevLineCharNum = 4\<rparr>"
         and ?d2.0 = "\<lparr>buf = ''[T]\<newline>'', bufPos = 2, lineNum = 1, charNum = 3, prevLineCharNum = 0\<rparr>"
         and ?d3.0 = "\<lparr>buf = ''[T]\<newline>'', bufPos = 3, lineNum = 1, charNum = 4, prevLineCharNum = 0\<rparr>"]
      h1 h2
    by (simp only: nl rest prod.case if_True simp_thms)
qed

end
